theory Spec2Isabelle
  imports Main "HOL-Library.Word" "HOL-Library.Finite_Map"
    "HOL-Library.List_Lexorder" "HOL-Library.Char_ord"
begin

section \<open>Base types of baseprotocol.go\<close>

text \<open>
  The Go aliases \<^verbatim>\<open>Integer = int32\<close>, \<^verbatim>\<open>UInteger = uint32\<close> and
  \<^verbatim>\<open>Decimal = float64\<close>. A 32-bit integer is a 32-bit word, read signed (\<open>sint\<close>)
  for \<^verbatim>\<open>int32\<close> and unsigned (\<open>unat\<close>) for \<^verbatim>\<open>uint32\<close>. A \<^verbatim>\<open>float64\<close> is carried
  as its 64 bits; no floating-point arithmetic is modelled.
\<close>

type_synonym Integer = "32 word"
type_synonym UInteger = "32 word"
type_synonym Decimal = "64 word"

text \<open>
  \<^verbatim>\<open>LSPAny = any\<close>: a Go interface value, that is a dynamic type with a value of that
  type, or the nil interface. The first eight constructors are the dynamic types that
  the type switches of \<^verbatim>\<open>IsLSPAny\<close> and \<^verbatim>\<open>IsLSPArrayOrObject\<close> name. The last three
  stand for the dynamic types those switches send to \<^verbatim>\<open>default\<close>: Go's \<^verbatim>\<open>int\<close>
  (the type of an untyped integer constant stored in an \<^verbatim>\<open>any\<close>, 64 bits wide on a
  64-bit platform), \<^verbatim>\<open>int64\<close>, and a channel (identified by a number).

  \<^verbatim>\<open>LSPObject = map[string]LSPAny\<close> is a finite map and \<^verbatim>\<open>LSPArray = []LSPAny\<close> a list;
  a Go map or slice value can also be nil, which is \<open>None\<close> here.
\<close>

datatype LSPAny =
    V_nil
  | V_string string
  | V_Integer Integer
  | V_UInteger UInteger
  | V_Decimal Decimal
  | V_bool bool
  | V_LSPObject "(string, LSPAny) fmap option"
  | V_LSPArray "LSPAny list option"
  | V_int "64 word"
  | V_int64 "64 word"
  | V_chan nat

text \<open>
  \<^verbatim>\<open>func IsLSPAny(v any) bool\<close>: a type switch on the dynamic type of \<open>v\<close> alone.
\<close>

fun IsLSPAny :: "LSPAny \<Rightarrow> bool" where
  "IsLSPAny (V_string s) = True"
| "IsLSPAny (V_Integer i) = True"
| "IsLSPAny (V_UInteger u) = True"
| "IsLSPAny (V_Decimal d) = True"
| "IsLSPAny (V_bool b) = True"
| "IsLSPAny V_nil = True"
| "IsLSPAny (V_LSPObject m) = True"
| "IsLSPAny (V_LSPArray xs) = True"
| "IsLSPAny _ = False"

text \<open>
  \<^verbatim>\<open>func IsLSPArrayOrObject(v any) bool\<close>.
\<close>

fun IsLSPArrayOrObject :: "LSPAny \<Rightarrow> bool" where
  "IsLSPArrayOrObject (V_LSPArray xs) = True"
| "IsLSPArrayOrObject (V_LSPObject m) = True"
| "IsLSPArrayOrObject _ = False"

text \<open>
  The StructuredValue grammar, in the words of the specification: recursively one of
  string, 32-bit signed integer, 32-bit unsigned integer, 64-bit float, boolean, null,
  a sequence of StructuredValue, a mapping of string to StructuredValue. This is the
  specification's predicate, not a function of the source; it is what \<open>IsLSPAny\<close> is
  compared with. A nil slice is the sequence without elements and a nil map the
  mapping without entries.
\<close>

primrec StructuredValue :: "LSPAny \<Rightarrow> bool" where
  "StructuredValue V_nil = True"
| "StructuredValue (V_string s) = True"
| "StructuredValue (V_Integer i) = True"
| "StructuredValue (V_UInteger u) = True"
| "StructuredValue (V_Decimal d) = True"
| "StructuredValue (V_bool b) = True"
| "StructuredValue (V_LSPObject m) =
     (case map_option (fmmap StructuredValue) m of
        None \<Rightarrow> True
      | Some f \<Rightarrow> fmpred (\<lambda>k b. b) f)"
| "StructuredValue (V_LSPArray xs) =
     (case map_option (map StructuredValue) xs of
        None \<Rightarrow> True
      | Some bs \<Rightarrow> list_all (\<lambda>b. b) bs)"
| "StructuredValue (V_int n) = False"
| "StructuredValue (V_int64 n) = False"
| "StructuredValue (V_chan c) = False"

section \<open>Error codes\<close>

text \<open>
  The constant block \<^verbatim>\<open>ErrorCodes\<close>; every constant has the type \<^verbatim>\<open>Integer\<close>.
\<close>

definition ParseError :: Integer where "ParseError = - 32700"
definition InvalidRequest :: Integer where "InvalidRequest = - 32600"
definition MethodNotFound :: Integer where "MethodNotFound = - 32601"
definition InvalidParams :: Integer where "InvalidParams = - 32602"
definition InternalError :: Integer where "InternalError = - 32603"

definition JSONRPCReservedErrorRangeStart :: Integer where
  "JSONRPCReservedErrorRangeStart = - 32099"
definition ServerErrorStart :: Integer where "ServerErrorStart = - 32099"
definition ServerNotInitialized :: Integer where "ServerNotInitialized = - 32002"
definition UnknownErrorCode :: Integer where "UnknownErrorCode = - 32001"
definition JSONRPCReservedErrorRangeEnd :: Integer where
  "JSONRPCReservedErrorRangeEnd = - 32000"
definition ServerErrorEnd :: Integer where "ServerErrorEnd = - 32000"

definition LSPReservedErrorRangeStart :: Integer where
  "LSPReservedErrorRangeStart = - 32899"
definition RequestFailed :: Integer where "RequestFailed = - 32803"
definition ServerCancelled :: Integer where "ServerCancelled = - 32804"
definition ContentModified :: Integer where "ContentModified = - 32801"
definition RequestCancelled :: Integer where "RequestCancelled = - 32800"
definition LSPReservedErrorRangeEnd :: Integer where
  "LSPReservedErrorRangeEnd = - 32800"

section \<open>The grammar predicate on sequences and mappings\<close>

lemma StructuredValue_LSPArray:
  "StructuredValue (V_LSPArray (Some xs)) = list_all StructuredValue xs"
  by (simp add: list_all_iff)

lemma StructuredValue_LSPObject:
  "StructuredValue (V_LSPObject (Some m)) = fmpred (\<lambda>k. StructuredValue) m"
  by simp

section \<open>Error catalogue\<close>

text \<open>
  C1. The error-code constants have the wire values the specification lists, as
  signed 32-bit integers: ParseError -32700, InvalidRequest -32600, MethodNotFound
  -32601, InvalidParams -32602, InternalError -32603, ServerNotInitialized -32002,
  UnknownErrorCode -32001, RequestFailed -32803, ServerCancelled -32804,
  ContentModified -32801, RequestCancelled -32800.
\<close>

theorem error_codes_wire_values:
  "sint ParseError = - 32700 \<and> sint InvalidRequest = - 32600 \<and>
   sint MethodNotFound = - 32601 \<and> sint InvalidParams = - 32602 \<and>
   sint InternalError = - 32603 \<and> sint ServerNotInitialized = - 32002 \<and>
   sint UnknownErrorCode = - 32001 \<and> sint RequestFailed = - 32803 \<and>
   sint ServerCancelled = - 32804 \<and> sint ContentModified = - 32801 \<and>
   sint RequestCancelled = - 32800"
  by (simp add: ParseError_def InvalidRequest_def MethodNotFound_def InvalidParams_def
      InternalError_def ServerNotInitialized_def UnknownErrorCode_def RequestFailed_def
      ServerCancelled_def ContentModified_def RequestCancelled_def)

text \<open>
  C9. The reserved-range constants delimit the JSON-RPC reserved range as
  [-32099, -32000] and the LSP reserved range as [-32899, -32800].
\<close>

theorem reserved_ranges:
  "sint JSONRPCReservedErrorRangeStart = - 32099 \<and>
   sint JSONRPCReservedErrorRangeEnd = - 32000 \<and>
   sint LSPReservedErrorRangeStart = - 32899 \<and>
   sint LSPReservedErrorRangeEnd = - 32800"
  by (simp add: JSONRPCReservedErrorRangeStart_def JSONRPCReservedErrorRangeEnd_def
      LSPReservedErrorRangeStart_def LSPReservedErrorRangeEnd_def)

section \<open>The two type switches\<close>

text \<open>
  C10. Whatever IsLSPArrayOrObject accepts, IsLSPAny accepts: if
  IsLSPArrayOrObject(v) is true then IsLSPAny(v) is true.
\<close>

theorem IsLSPArrayOrObject_imp_IsLSPAny:
  "IsLSPArrayOrObject v \<Longrightarrow> IsLSPAny v"
  by (cases v) simp_all

theorem IsLSPArrayOrObject_imp_IsLSPAny_witness:
  "IsLSPArrayOrObject (V_LSPArray (Some [V_string ''a'', V_int 1])) \<and>
   IsLSPAny (V_LSPArray (Some [V_string ''a'', V_int 1]))"
  using IsLSPArrayOrObject_imp_IsLSPAny [of "V_LSPArray (Some [V_string ''a'', V_int 1])"]
  by simp




end
